theory Spec2Isabelle
  imports Complex_Main "HOL-Library.AList"
begin

section \<open>Numbers, strings and dictionaries of the Python source\<close>

text \<open>
  Python floats are modelled by exact rationals; a missing value (pandas \<open>NaN\<close>) is
  \<open>None\<close>. Every ordering comparison with \<open>NaN\<close> is false, as in Python.
\<close>

type_synonym cell = "rat option"







text \<open>\<open>d.get(k, default)\<close> on a dictionary field that may be absent.\<close>

definition get_or :: "'a option \<Rightarrow> 'a \<Rightarrow> 'a" where
  "get_or v d = (case v of None \<Rightarrow> d | Some x \<Rightarrow> x)"


text \<open>A gap entry \<open>{'current': .., 'recommended': .., 'deficit': ..}\<close>.\<close>

record gap =
  current :: rat
  recommended :: rat
  deficit :: rat

type_synonym gaps = "(string \<times> gap) list"

section \<open>BMR and daily caloric need\<close>




text \<open>The formula and the table of the specification, written from its words.\<close>

definition spec_bmr :: "rat \<Rightarrow> rat \<Rightarrow> rat \<Rightarrow> string \<Rightarrow> rat" where
  "spec_bmr a w h g =
     (if g = ''male''
      then 88362 / 1000 + 13397 / 1000 * w + 4799 / 1000 * h - 5677 / 1000 * a
      else 447593 / 1000 + 9247 / 1000 * w + 3098 / 1000 * h - 4330 / 1000 * a)"

definition spec_multiplier :: "string \<Rightarrow> rat" where
  "spec_multiplier lvl =
     (if lvl = ''Low'' then 12 / 10
      else if lvl = ''Moderate'' then 155 / 100
      else if lvl = ''High'' then 1725 / 1000
      else 155 / 100)"


section \<open>Nutrition analyzer (nutrition_analyzer.py)\<close>

text \<open>
  A food-log frame is the list of its rows. The frame carries the columns of the
  \<open>food_logs\<close> table that the analyzer reads; a macro cell may be missing.
\<close>

record food_row =
  date :: string
  meal_type :: string
  food_item :: string
  calories :: cell
  protein :: cell
  carbs :: cell
  fat :: cell
  fiber :: cell

type_synonym food_df = "food_row list"

text \<open>The values of a column that are present (\<open>dropna\<close>).\<close>

fun dropna :: "cell list \<Rightarrow> rat list" where
  "dropna [] = []"
| "dropna (None # cs) = dropna cs"
| "dropna (Some v # cs) = v # dropna cs"

text \<open>\<open>Series.sum()\<close>: missing values are skipped, the empty sum is 0.\<close>

definition nansum :: "cell list \<Rightarrow> rat" where
  "nansum cs = sum_list (dropna cs)"

text \<open>\<open>Series.mean()\<close>: missing values are skipped, the mean of nothing is \<open>NaN\<close>.\<close>

definition nanmean :: "cell list \<Rightarrow> cell" where
  "nanmean cs =
     (let vs = dropna cs
      in if vs = [] then None else Some (sum_list vs / of_nat (length vs)))"

text \<open>\<open>Series.fillna(v)\<close> on one cell: a present value stays.\<close>

definition fillna :: "cell \<Rightarrow> cell \<Rightarrow> cell" where
  "fillna c v = (case c of None \<Rightarrow> v | Some x \<Rightarrow> Some x)"

text \<open>\<open>df.groupby('food_item')[col].transform('mean')\<close> at the row \<open>r\<close>.\<close>

definition group_mean :: "(food_row \<Rightarrow> cell) \<Rightarrow> food_df \<Rightarrow> food_row \<Rightarrow> cell" where
  "group_mean col df r = nanmean (map col (filter (\<lambda>s. food_item s = food_item r) df))"

text \<open>
  The body of the loop of \<open>handle_missing_values\<close> for one column, given by its
  reader \<open>col\<close> and its writer \<open>upd\<close>: two assignments to \<open>df[col]\<close>.
\<close>

definition fill_column ::
  "(food_row \<Rightarrow> cell) \<Rightarrow> ((cell \<Rightarrow> cell) \<Rightarrow> food_row \<Rightarrow> food_row) \<Rightarrow> food_df \<Rightarrow> food_df" where
  "fill_column col upd df =
     (let df1 = map (\<lambda>r. upd (\<lambda>c. fillna c (group_mean col df r)) r) df;
          m = nanmean (map col df1)
      in map (\<lambda>r. upd (\<lambda>c. fillna c m) r) df1)"

text \<open>\<open>handle_missing_values\<close>: the columns in the order of \<open>numeric_columns\<close>.\<close>

definition handle_missing_values :: "food_df \<Rightarrow> food_df" where
  "handle_missing_values df =
     fill_column fiber fiber_update
       (fill_column fat fat_update
         (fill_column carbs carbs_update
           (fill_column protein protein_update
             (fill_column calories calories_update df))))"

text \<open>\<open>Series.mean()\<close> of a series without missing values.\<close>

definition mean :: "rat list \<Rightarrow> cell" where
  "mean xs = (if xs = [] then None else Some (sum_list xs / of_nat (length xs)))"

text \<open>The per-date sums of one column: \<open>groupby('date').agg({col: 'sum'})\<close>.\<close>

definition daily_sums :: "(food_row \<Rightarrow> cell) \<Rightarrow> food_df \<Rightarrow> rat list" where
  "daily_sums col df =
     map (\<lambda>d. nansum (map col (filter (\<lambda>r. date r = d) df))) (remdups (map date df))"

definition calculate_daily_intake :: "food_df \<Rightarrow> (string \<times> cell) list" where
  "calculate_daily_intake food_logs_df =
     [(''calories'', mean (daily_sums calories food_logs_df)),
      (''protein'', mean (daily_sums protein food_logs_df)),
      (''carbs'', mean (daily_sums carbs food_logs_df)),
      (''fat'', mean (daily_sums fat food_logs_df)),
      (''fiber'', mean (daily_sums fiber food_logs_df))]"

definition recommended_values :: "(string \<times> rat) list" where
  "recommended_values =
     [(''calories'', 2000), (''protein'', 50), (''carbs'', 225), (''fat'', 65), (''fiber'', 25)]"

text \<open>
  \<open>identify_nutritional_gaps\<close>: the loop over the items of \<open>daily_intake\<close>; the
  comparison is false for a \<open>NaN\<close> intake.
\<close>

definition identify_nutritional_gaps :: "(string \<times> cell) list \<Rightarrow> gaps" where
  "identify_nutritional_gaps daily_intake =
     fold (\<lambda>(nutrient, current_intake) gaps.
             (let recommended = get_or (map_of recommended_values nutrient) 0
              in case current_intake of
                   None \<Rightarrow> gaps
                 | Some c \<Rightarrow>
                     if c < recommended * (8 / 10)
                     then AList.update nutrient
                            \<lparr>current = c, recommended = recommended,
                             deficit = recommended - c\<rparr> gaps
                     else gaps))
          daily_intake []"

record eating_patterns =
  avg_meals_per_day :: cell
  common_foods :: "(string \<times> nat) list"
  meal_distribution :: "(string \<times> rat) list"
  category_distribution :: "(string \<times> rat) list option"

record nutrition_analysis =
  daily_intake :: "(string \<times> cell) list"
  nutritional_gaps :: gaps
  eating_patterns :: eating_patterns
  recommendations :: "string list"

text \<open>\<open>NutritionAnalyzer.get_default_analysis\<close>.\<close>

definition get_default_analysis :: nutrition_analysis where
  "get_default_analysis =
     \<lparr>daily_intake =
        [(''calories'', Some 0), (''protein'', Some 0), (''carbs'', Some 0),
         (''fat'', Some 0), (''fiber'', Some 0)],
      nutritional_gaps =
        [(''calories'', \<lparr>current = 0, recommended = 2000, deficit = 2000\<rparr>),
         (''protein'', \<lparr>current = 0, recommended = 50, deficit = 50\<rparr>),
         (''fiber'', \<lparr>current = 0, recommended = 25, deficit = 25\<rparr>)],
      eating_patterns =
        \<lparr>avg_meals_per_day = Some 0, common_foods = [], meal_distribution = [],
         category_distribution = None\<rparr>,
      recommendations =
        [''Start logging your food intake to get personalized recommendations'',
         ''Aim for balanced meals with protein, carbs, and healthy fats'',
         ''Include plenty of fruits and vegetables for fiber and micronutrients'']\<rparr>"

text \<open>
  \<open>analyze_food_logs\<close>. The two helpers that only read the frame and format text,
  \<open>analyze_eating_patterns\<close> and \<open>generate_nutrition_recommendations\<close>, are
  parameters. \<open>handle_missing_values\<close> assigns to the columns of the frame it is
  given, which is the caller's object: the second component of the result is the
  caller's frame after the call.
\<close>

definition analyze_food_logs ::
  "(food_df \<Rightarrow> eating_patterns) \<Rightarrow> (gaps \<Rightarrow> eating_patterns \<Rightarrow> string list)
   \<Rightarrow> food_df \<Rightarrow> nutrition_analysis \<times> food_df" where
  "analyze_food_logs analyze_eating_patterns generate_nutrition_recommendations food_logs_df =
     (if food_logs_df = [] then (get_default_analysis, food_logs_df)
      else
        (let df = handle_missing_values food_logs_df;
             intake = calculate_daily_intake df;
             nutr_gaps = identify_nutritional_gaps intake;
             patterns = analyze_eating_patterns df;
             recs = generate_nutrition_recommendations nutr_gaps patterns
         in (\<lparr>daily_intake = intake, nutritional_gaps = nutr_gaps,
              eating_patterns = patterns, recommendations = recs\<rparr>, df)))"

text \<open>
  The average daily intake in the words of the specification: the mean, over the
  distinct dates present, of the per-date sums; undefined when there is no date.
\<close>

definition spec_average_intake :: "(food_row \<Rightarrow> cell) \<Rightarrow> food_df \<Rightarrow> cell" where
  "spec_average_intake col df =
     (if df = [] then None
      else Some ((\<Sum>d \<in> date ` set df. nansum (map col (filter (\<lambda>r. date r = d) df)))
                 / of_nat (card (date ` set df))))"

text \<open>The rule of the specification for one nutrient with target \<open>t\<close>.\<close>

definition spec_gap :: "cell \<Rightarrow> rat \<Rightarrow> gap option" where
  "spec_gap avg t =
     (case avg of
        None \<Rightarrow> None
      | Some a \<Rightarrow>
          if a < (8 / 10) * t then Some \<lparr>current = a, recommended = t, deficit = t - a\<rparr>
          else None)"

text \<open>A small log used in the examples: two days, one missing calories value.\<close>

definition row :: "string \<Rightarrow> string \<Rightarrow> string \<Rightarrow> cell \<Rightarrow> cell \<Rightarrow> cell \<Rightarrow> cell \<Rightarrow> cell \<Rightarrow> food_row" where
  "row d m f c p cb ft fb =
     \<lparr>date = d, meal_type = m, food_item = f, calories = c, protein = p, carbs = cb,
      fat = ft, fiber = fb\<rparr>"

definition sample_log :: food_df where
  "sample_log =
     [row ''2024-01-01'' ''Breakfast'' ''Oats'' (Some 400) (Some 20) (Some 60) (Some 10) (Some 8),
      row ''2024-01-01'' ''Lunch'' ''Rice'' (Some 800) (Some 20) (Some 170) (Some 50) (Some 2),
      row ''2024-01-02'' ''Breakfast'' ''Oats'' None (Some 10) (Some 60) (Some 10) (Some 8),
      row ''2024-01-02'' ''Dinner'' ''Salmon'' (Some 600) (Some 40) (Some 0) (Some 30) None]"

text \<open>The body of the loop of \<open>identify_nutritional_gaps\<close>, in terms of \<open>spec_gap\<close>.\<close>

definition gap_step :: "string \<Rightarrow> cell \<Rightarrow> gaps \<Rightarrow> gaps" where
  "gap_step n c g =
     (case spec_gap c (get_or (map_of recommended_values n) 0) of
        None \<Rightarrow> g
      | Some e \<Rightarrow> AList.update n e g)"

text \<open>
  The amended imputation rule for one cell: a present value stays; a missing one takes
  the mean of the present values of the rows with the same \<open>food_item\<close>; failing that,
  the mean of the column as it stands after that first step; failing that too (the
  whole column is missing) it stays missing.
\<close>

definition spec_fill :: "(food_row \<Rightarrow> cell) \<Rightarrow> food_df \<Rightarrow> food_row \<Rightarrow> cell" where
  "spec_fill col df r =
     (case col r of
        Some v \<Rightarrow> Some v
      | None \<Rightarrow>
          (case group_mean col df r of
             Some g \<Rightarrow> Some g
           | None \<Rightarrow> nanmean (map (\<lambda>s. fillna (col s) (group_mean col df s)) df)))"

text \<open>A log whose calories column is missing throughout.\<close>

definition log_without_calories :: food_df where
  "log_without_calories =
     [row ''2024-01-01'' ''Lunch'' ''Rice'' None (Some 20) (Some 170) (Some 50) (Some 2),
      row ''2024-01-01'' ''Dinner'' ''Salmon'' None (Some 40) (Some 0) (Some 30) (Some 1)]"

section \<open>Activity tracker (activity_tracker.py)\<close>

text \<open>
  A row of the reference table \<open>self.exercise_data\<close> (the columns the analyzer reads),
  and the table \<open>create_sample_exercise_data\<close> builds when no file is given.
\<close>

record exercise_ref =
  ref_exercise_type :: string
  met_value :: rat
  category :: string

definition ref :: "string \<Rightarrow> rat \<Rightarrow> string \<Rightarrow> exercise_ref" where
  "ref t m c = \<lparr>ref_exercise_type = t, met_value = m, category = c\<rparr>"

definition sample_exercise_data :: "exercise_ref list" where
  "sample_exercise_data =
     [ref ''Walking'' (35 / 10) ''Cardio'', ref ''Running'' 8 ''Cardio'',
      ref ''Cycling'' (68 / 10) ''Cardio'', ref ''Swimming'' 6 ''Cardio'',
      ref ''Weight Training'' 6 ''Strength'', ref ''Yoga'' (25 / 10) ''Flexibility'',
      ref ''Pilates'' 3 ''Flexibility'', ref ''Basketball'' (65 / 10) ''Sports'',
      ref ''Tennis'' 5 ''Sports'', ref ''Soccer'' 7 ''Sports'',
      ref ''Dancing'' (48 / 10) ''Recreation'', ref ''Hiking'' 6 ''Outdoor'',
      ref ''Rowing'' (85 / 10) ''Cardio'', ref ''Elliptical'' 5 ''Cardio'',
      ref ''Jumping Rope'' 10 ''Cardio'', ref ''Rock Climbing'' 8 ''Outdoor'',
      ref ''Martial Arts'' 5 ''Combat'', ref ''Boxing'' 8 ''Combat'',
      ref ''Aerobics'' 6 ''Cardio'', ref ''Stretching'' (23 / 10) ''Flexibility'',
      ref ''Volleyball'' 4 ''Sports'', ref ''Badminton'' (45 / 10) ''Sports'',
      ref ''Golf'' (35 / 10) ''Recreation'', ref ''Bowling'' 3 ''Recreation'',
      ref ''Skateboarding'' 5 ''Recreation'']"

text \<open>\<open>load_met_values\<close>: \<open>dict(zip(...))\<close>, a later row overriding an earlier one.\<close>

definition load_met_values :: "exercise_ref list \<Rightarrow> (string \<rightharpoonup> rat)" where
  "load_met_values exercise_data =
     map_of (rev (map (\<lambda>e. (ref_exercise_type e, met_value e)) exercise_data))"

text \<open>
  An exercise-log frame: its rows, and the \<open>calories_burned\<close> column, which the frame
  may lack (\<open>None\<close>) and whose cells may be missing.
\<close>

record exercise_row =
  ex_date :: string
  exercise_type :: string
  duration :: rat
  intensity :: string

record exercise_df =
  rows :: "exercise_row list"
  calories_burned :: "cell list option"

text \<open>The inner function \<open>calc_calories\<close> of \<open>calculate_calories_burned\<close>.\<close>

definition calc_calories :: "(string \<rightharpoonup> rat) \<Rightarrow> rat \<Rightarrow> exercise_row \<Rightarrow> rat" where
  "calc_calories met_values user_weight r =
     (let met = get_or (met_values (exercise_type r)) 5;
          duration_hours = duration r / 60;
          calories = met * user_weight * duration_hours
      in calories)"

text \<open>
  \<open>calculate_calories_burned\<close>: the column is assigned, for every row at once, only
  when the frame has no such column or all of its cells are missing. The assignment
  is to the frame passed in.
\<close>

definition calculate_calories_burned ::
  "exercise_ref list \<Rightarrow> exercise_df \<Rightarrow> rat \<Rightarrow> exercise_df" where
  "calculate_calories_burned exercise_data exercise_logs_df user_weight =
     (let assigned =
            exercise_logs_df
              \<lparr>calories_burned :=
                 Some (map (\<lambda>r. Some (calc_calories (load_met_values exercise_data) user_weight r))
                         (rows exercise_logs_df))\<rparr>
      in case calories_burned exercise_logs_df of
           None \<Rightarrow> assigned
         | Some col \<Rightarrow> if list_all (\<lambda>c. c = None) col then assigned else exercise_logs_df)"

text \<open>
  \<open>merge(exercise_data[['exercise_type', 'category']], on='exercise_type', how='left')\<close>:
  a log row is paired with the category of every reference row of its type, or with
  a missing category when there is none.
\<close>

definition merge_left :: "exercise_row list \<Rightarrow> exercise_ref list \<Rightarrow> (exercise_row \<times> string option) list" where
  "merge_left rs exercise_data =
     concat (map (\<lambda>r. case filter (\<lambda>e. ref_exercise_type e = exercise_type r) exercise_data of
                         [] \<Rightarrow> [(r, None)]
                       | es \<Rightarrow> map (\<lambda>e. (r, Some (category e))) es) rs)"

definition identify_fitness_gaps :: "exercise_ref list \<Rightarrow> exercise_df \<Rightarrow> gaps" where
  "identify_fitness_gaps exercise_data exercise_logs_df =
     (let gaps0 = [];
          total_duration = sum_list (map duration (rows exercise_logs_df));
          gaps1 = (if total_duration < 150
                   then AList.update ''cardio_duration''
                          \<lparr>current = total_duration, recommended = 150,
                           deficit = 150 - total_duration\<rparr> gaps0
                   else gaps0);
          unique_exercises = length (remdups (map exercise_type (rows exercise_logs_df)));
          gaps2 = (if unique_exercises < 3
                   then AList.update ''exercise_variety''
                          \<lparr>current = of_nat unique_exercises, recommended = 3,
                           deficit = 3 - of_nat unique_exercises\<rparr> gaps1
                   else gaps1);
          strength_exercises = merge_left (rows exercise_logs_df) exercise_data;
          strength_sessions = length (filter (\<lambda>(r, c). c = Some ''Strength'') strength_exercises);
          gaps3 = (if strength_sessions < 2
                   then AList.update ''strength_training''
                          \<lparr>current = of_nat strength_sessions, recommended = 2,
                           deficit = 2 - of_nat strength_sessions\<rparr> gaps2
                   else gaps2);
          flexibility_exercises =
            length (filter (\<lambda>(r, c). c = Some ''Flexibility'') strength_exercises);
          gaps4 = (if flexibility_exercises < 1
                   then AList.update ''flexibility''
                          \<lparr>current = of_nat flexibility_exercises, recommended = 2,
                           deficit = 2 - of_nat flexibility_exercises\<rparr> gaps3
                   else gaps3)
      in gaps4)"

record activity_patterns =
  exercises_per_week :: rat
  common_exercises :: "(string \<times> nat) list"
  avg_duration_minutes :: cell
  total_weekly_duration :: rat
  intensity_distribution :: "(string \<times> rat) list"
  activity_category_distribution :: "(string \<times> rat) list"

record activity_analysis =
  activity_patterns :: activity_patterns
  fitness_gaps :: gaps
  activity_recommendations :: "string list"
  total_calories_burned :: rat

text \<open>\<open>ActivityTracker.get_default_analysis\<close>.\<close>

definition activity_default_analysis :: activity_analysis where
  "activity_default_analysis =
     \<lparr>activity_patterns =
        \<lparr>exercises_per_week = 0, common_exercises = [], avg_duration_minutes = Some 0,
         total_weekly_duration = 0, intensity_distribution = [],
         activity_category_distribution = []\<rparr>,
      fitness_gaps =
        [(''cardio_duration'', \<lparr>current = 0, recommended = 150, deficit = 150\<rparr>),
         (''strength_training'', \<lparr>current = 0, recommended = 2, deficit = 2\<rparr>),
         (''flexibility'', \<lparr>current = 0, recommended = 2, deficit = 2\<rparr>)],
      activity_recommendations =
        [''Start with 150 minutes of moderate cardio per week'',
         ''Include 2 strength training sessions weekly'',
         ''Add flexibility exercises like yoga or stretching'',
         ''Begin with activities you enjoy to build consistency''],
      total_calories_burned = 0\<rparr>"

text \<open>
  \<open>analyze_activity_logs\<close>. The helpers that only read the frame,
  \<open>analyze_activity_patterns\<close> and \<open>generate_exercise_recommendations\<close>, are parameters.
  The second component of the result is the caller's frame after the call. After
  \<open>calculate_calories_burned\<close> the frame always has the column, so the last case of
  the sum is never taken.
\<close>

definition analyze_activity_logs ::
  "(exercise_df \<Rightarrow> activity_patterns) \<Rightarrow> (activity_patterns \<Rightarrow> gaps \<Rightarrow> string list)
   \<Rightarrow> exercise_ref list \<Rightarrow> exercise_df \<Rightarrow> rat \<Rightarrow> activity_analysis \<times> exercise_df" where
  "analyze_activity_logs analyze_activity_patterns generate_exercise_recommendations
       exercise_data exercise_logs_df user_weight =
     (if rows exercise_logs_df = [] then (activity_default_analysis, exercise_logs_df)
      else
        (let df = calculate_calories_burned exercise_data exercise_logs_df user_weight;
             patterns = analyze_activity_patterns df;
             fit_gaps = identify_fitness_gaps exercise_data df;
             recs = generate_exercise_recommendations patterns fit_gaps
         in (\<lparr>activity_patterns = patterns, fitness_gaps = fit_gaps,
              activity_recommendations = recs,
              total_calories_burned =
                (case calories_burned df of Some col \<Rightarrow> nansum col | None \<Rightarrow> 0)\<rparr>, df)))"

definition ex :: "string \<Rightarrow> string \<Rightarrow> rat \<Rightarrow> string \<Rightarrow> exercise_row" where
  "ex d t m i = \<lparr>ex_date = d, exercise_type = t, duration = m, intensity = i\<rparr>"

definition sample_exercise_log :: exercise_df where
  "sample_exercise_log =
     \<lparr>rows = [ex ''2024-01-01'' ''Running'' 30 ''High'',
              ex ''2024-01-03'' ''Yoga'' 60 ''Low'',
              ex ''2024-01-05'' ''Juggling'' 45 ''Low''],
      calories_burned = Some [Some 300, None, None]\<rparr>"

text \<open>An entry counts in a category when the reference table lists its type there.\<close>

definition in_category :: "exercise_ref list \<Rightarrow> string \<Rightarrow> exercise_row \<Rightarrow> bool" where
  "in_category exercise_data cat r =
     (\<exists>e \<in> set exercise_data. ref_exercise_type e = exercise_type r \<and> category e = cat)"

text \<open>The MET value of the specification: the table's value, 5.0 for an unknown type.\<close>

definition spec_met :: "exercise_ref list \<Rightarrow> string \<Rightarrow> rat" where
  "spec_met exercise_data t =
     (case load_met_values exercise_data t of None \<Rightarrow> 5 | Some m \<Rightarrow> m)"

text \<open>A food-log row with no missing macro value.\<close>

definition all_present :: "food_row \<Rightarrow> bool" where
  "all_present r \<longleftrightarrow>
     calories r \<noteq> None \<and> protein r \<noteq> None \<and> carbs r \<noteq> None \<and> fat r \<noteq> None \<and> fiber r \<noteq> None"

section \<open>Progress predictor (progress_predictor.py)\<close>


























section \<open>Theorems: caloric need\<close>

lemma get_or_simps [simp]: "get_or None d = d" "get_or (Some x) d = x"
  by (simp_all add: get_or_def)



text \<open>
  A product that is a tie: for a 32 year old \<open>Male\<close> of 58 kg and 174 cm at Low activity
  the exact product is 1822.5, so the float product decides between 1822 and 1823.
\<close>

lemma caloric_needs_tie:
  "spec_bmr 32 58 174 ''male'' * spec_multiplier ''Low'' = 3645 / 2"
  by code_simp




section \<open>Theorems: nutrition analyzer\<close>

lemma mean_daily_sums:
  "mean (daily_sums col df) = spec_average_intake col df"
proof (cases "df = []")
  case True
  then show ?thesis by (simp add: mean_def daily_sums_def spec_average_intake_def)
next
  case False
  have s: "sum_list (daily_sums col df)
        = (\<Sum>d \<in> date ` set df. nansum (map col (filter (\<lambda>r. date r = d) df)))"
    unfolding daily_sums_def
    by (simp add: sum_list_distinct_conv_sum_set)
  have l: "length (daily_sums col df) = card (date ` set df)"
    unfolding daily_sums_def by (simp add: length_remdups_card_conv)
  from False have "daily_sums col df \<noteq> []" by (simp add: daily_sums_def)
  with False s l show ?thesis
    by (simp add: mean_def spec_average_intake_def)
qed

lemma rec_vals:
  "get_or (map_of recommended_values ''calories'') 0 = 2000"
  "get_or (map_of recommended_values ''protein'') 0 = 50"
  "get_or (map_of recommended_values ''carbs'') 0 = 225"
  "get_or (map_of recommended_values ''fat'') 0 = 65"
  "get_or (map_of recommended_values ''fiber'') 0 = 25"
  by (simp_all add: recommended_values_def)

lemma step_eq:
  "(\<lambda>(nutrient, current_intake) gaps.
             (let recommended = get_or (map_of recommended_values nutrient) 0
              in case current_intake of
                   None \<Rightarrow> gaps
                 | Some c \<Rightarrow>
                     if c < recommended * (8 / 10)
                     then AList.update nutrient
                            \<lparr>current = c, recommended = recommended,
                             deficit = recommended - c\<rparr> gaps
                     else gaps)) = (\<lambda>(n, c). gap_step n c)"
  by (auto simp: fun_eq_iff gap_step_def spec_gap_def Let_def mult.commute split: option.splits)

lemma map_of_gap_step:
  "map_of (gap_step n c g) k =
     (if k = n
      then (case spec_gap c (get_or (map_of recommended_values n) 0) of
              None \<Rightarrow> map_of g k | Some e \<Rightarrow> Some e)
      else map_of g k)"
  by (simp add: gap_step_def update_conv' split: option.splits)

lemma gaps_intake:
  "map_of (identify_nutritional_gaps (calculate_daily_intake df)) k =
    (if k = ''calories'' then spec_gap (spec_average_intake calories df) 2000
     else if k = ''protein'' then spec_gap (spec_average_intake protein df) 50
     else if k = ''carbs'' then spec_gap (spec_average_intake carbs df) 225
     else if k = ''fat'' then spec_gap (spec_average_intake fat df) 65
     else if k = ''fiber'' then spec_gap (spec_average_intake fiber df) 25
     else None)"
  unfolding identify_nutritional_gaps_def step_eq calculate_daily_intake_def mean_daily_sums
  apply (simp only: fold_simps prod.case map_of_gap_step rec_vals)
  apply (simp split: option.splits)
  done

text \<open>
  C1: for every food-log frame and every nutrient of the target table, the gap
  dictionary computed by \<open>identify_nutritional_gaps\<close> from \<open>calculate_daily_intake\<close>
  has an entry for the nutrient exactly when the average daily intake (the mean over
  the distinct dates present of the per-date sums) is strictly below 0.8 times the
  target; the entry then holds that average, the target, and deficit = target - average.
  No other key is ever emitted. For a non-empty log \<open>analyze_food_logs\<close> reports these
  gaps for the frame it holds after \<open>handle_missing_values\<close>.
\<close>

theorem nutritional_gap_rule:
  "map_of (identify_nutritional_gaps (calculate_daily_intake df)) k =
    (if k = ''calories'' then spec_gap (spec_average_intake calories df) 2000
     else if k = ''protein'' then spec_gap (spec_average_intake protein df) 50
     else if k = ''carbs'' then spec_gap (spec_average_intake carbs df) 225
     else if k = ''fat'' then spec_gap (spec_average_intake fat df) 65
     else if k = ''fiber'' then spec_gap (spec_average_intake fiber df) 25
     else None)
   \<and> (food_logs_df \<noteq> [] \<longrightarrow>
        nutritional_gaps (fst (analyze_food_logs P R food_logs_df))
          = identify_nutritional_gaps (calculate_daily_intake (handle_missing_values food_logs_df)))"
  by (simp add: gaps_intake analyze_food_logs_def Let_def)

theorem nutritional_gap_rule_witness:
  "sample_log \<noteq> []
   \<and> map_of (nutritional_gaps (fst (analyze_food_logs
                (\<lambda>df. eating_patterns get_default_analysis) (\<lambda>g p. []) sample_log))) ''calories''
       = Some \<lparr>current = 1100, recommended = 2000, deficit = 900\<rparr>
   \<and> map_of (nutritional_gaps (fst (analyze_food_logs
                (\<lambda>df. eating_patterns get_default_analysis) (\<lambda>g p. []) sample_log))) ''protein''
       = None"
proof -
  have n: "sample_log \<noteq> []" by (simp add: sample_log_def)
  have c: "spec_gap (spec_average_intake calories (handle_missing_values sample_log)) 2000
             = Some \<lparr>current = 1100, recommended = 2000, deficit = 900\<rparr>"
    by code_simp
  have p: "spec_gap (spec_average_intake protein (handle_missing_values sample_log)) 50 = None"
    by code_simp
  from nutritional_gap_rule
    [of "handle_missing_values sample_log" "''calories''" sample_log
        "\<lambda>df. eating_patterns get_default_analysis" "\<lambda>g p. []"]
       nutritional_gap_rule
    [of "handle_missing_values sample_log" "''protein''" sample_log
        "\<lambda>df. eating_patterns get_default_analysis" "\<lambda>g p. []"]
  show ?thesis using n c p by simp
qed

text \<open>
  C5, as stated: the canned default analysis would carry four generic recommendation
  strings. \<open>get_default_analysis\<close> of the nutrition analyzer lists three.
\<close>

theorem default_recommendations_counterexample:
  "length (recommendations get_default_analysis) = 3
   \<and> length (recommendations get_default_analysis) \<noteq> 4"
  by (simp add: get_default_analysis_def)

text \<open>
  C5, amended: for the empty food log \<open>analyze_food_logs\<close> returns, without error, the
  fixed default analysis: the daily intake is zero for every nutrient, the gap set has
  full deficits for exactly calories (2000), protein (50) and fiber (25), and the
  recommendation list has three generic strings.
\<close>

theorem empty_log_default_analysis:
  "fst (analyze_food_logs P R []) = get_default_analysis
   \<and> daily_intake get_default_analysis =
       [(''calories'', Some 0), (''protein'', Some 0), (''carbs'', Some 0),
        (''fat'', Some 0), (''fiber'', Some 0)]
   \<and> nutritional_gaps get_default_analysis =
       [(''calories'', \<lparr>current = 0, recommended = 2000, deficit = 2000\<rparr>),
        (''protein'', \<lparr>current = 0, recommended = 50, deficit = 50\<rparr>),
        (''fiber'', \<lparr>current = 0, recommended = 25, deficit = 25\<rparr>)]
   \<and> length (recommendations get_default_analysis) = 3"
  by (simp add: analyze_food_logs_def get_default_analysis_def)

theorem empty_log_default_analysis_witness:
  "map fst (nutritional_gaps (fst (analyze_food_logs
       (\<lambda>df. eating_patterns get_default_analysis) (\<lambda>g p. []) [])))
     = [''calories'', ''protein'', ''fiber'']"
  using empty_log_default_analysis
    [of "\<lambda>df. eating_patterns get_default_analysis" "\<lambda>g p. []"]
  by simp

lemma fillna_twice: "fillna (fillna (col r) (group_mean col df r))
     (nanmean (map (\<lambda>s. fillna (col s) (group_mean col df s)) df)) = spec_fill col df r"
  by (simp add: spec_fill_def fillna_def split: option.splits)

lemma fill_calories:
  "fill_column calories calories_update df = map (\<lambda>r. r\<lparr>calories := spec_fill calories df r\<rparr>) df"
  by (simp add: fill_column_def Let_def o_def fillna_twice)
lemma fill_protein:
  "fill_column protein protein_update df = map (\<lambda>r. r\<lparr>protein := spec_fill protein df r\<rparr>) df"
  by (simp add: fill_column_def Let_def o_def fillna_twice)
lemma fill_carbs:
  "fill_column carbs carbs_update df = map (\<lambda>r. r\<lparr>carbs := spec_fill carbs df r\<rparr>) df"
  by (simp add: fill_column_def Let_def o_def fillna_twice)
lemma fill_fat:
  "fill_column fat fat_update df = map (\<lambda>r. r\<lparr>fat := spec_fill fat df r\<rparr>) df"
  by (simp add: fill_column_def Let_def o_def fillna_twice)
lemma fill_fiber:
  "fill_column fiber fiber_update df = map (\<lambda>r. r\<lparr>fiber := spec_fill fiber df r\<rparr>) df"
  by (simp add: fill_column_def Let_def o_def fillna_twice)

lemma group_mean_map:
  assumes "\<And>r. col (g r) = col r" "\<And>r. food_item (g r) = food_item r"
  shows "group_mean col (map g df) (g r) = group_mean col df r"
  using assms by (simp add: group_mean_def filter_map o_def)

lemma spec_fill_map:
  assumes "\<And>r. col (g r) = col r" "\<And>r. food_item (g r) = food_item r"
  shows "spec_fill col (map g df) (g r) = spec_fill col df r"
proof -
  have "map (\<lambda>s. fillna (col s) (group_mean col (map g df) s)) (map g df)
      = map (\<lambda>s. fillna (col s) (group_mean col df s)) df"
    using assms by (simp add: o_def group_mean_map)
  then show ?thesis
    unfolding spec_fill_def
    by (simp only: group_mean_map [where col = col and g = g, OF assms] assms)
qed

lemma fill_after:
  assumes "\<And>r. col (g r) = col r" "\<And>r. food_item (g r) = food_item r"
  shows "map (\<lambda>r. U (spec_fill col (map g df) r) r) (map g df)
       = map (\<lambda>x. U (spec_fill col df x) (g x)) df"
  by (simp add: o_def spec_fill_map [where col = col and g = g, OF assms])

lemma handle_missing_values_closed:
  "handle_missing_values df =
     map (\<lambda>r. r\<lparr>calories := spec_fill calories df r, protein := spec_fill protein df r,
               carbs := spec_fill carbs df r, fat := spec_fill fat df r,
               fiber := spec_fill fiber df r\<rparr>) df"
proof -
  let ?g1 = "\<lambda>r. r\<lparr>calories := spec_fill calories df r\<rparr>"
  let ?g2 = "\<lambda>r. r\<lparr>calories := spec_fill calories df r, protein := spec_fill protein df r\<rparr>"
  let ?g3 = "\<lambda>r. r\<lparr>calories := spec_fill calories df r, protein := spec_fill protein df r,
               carbs := spec_fill carbs df r\<rparr>"
  let ?g4 = "\<lambda>r. r\<lparr>calories := spec_fill calories df r, protein := spec_fill protein df r,
               carbs := spec_fill carbs df r, fat := spec_fill fat df r\<rparr>"
  have 1: "fill_column calories calories_update df = map ?g1 df"
    by (rule fill_calories)
  have 2: "fill_column protein protein_update (map ?g1 df) = map ?g2 df"
    unfolding fill_protein
    using fill_after [where col = protein and g = ?g1 and U = "\<lambda>v r. r\<lparr>protein := v\<rparr>" and df = df]
    by simp
  have 3: "fill_column carbs carbs_update (map ?g2 df) = map ?g3 df"
    unfolding fill_carbs
    using fill_after [where col = carbs and g = ?g2 and U = "\<lambda>v r. r\<lparr>carbs := v\<rparr>" and df = df]
    by simp
  have 4: "fill_column fat fat_update (map ?g3 df) = map ?g4 df"
    unfolding fill_fat
    using fill_after [where col = fat and g = ?g3 and U = "\<lambda>v r. r\<lparr>fat := v\<rparr>" and df = df]
    by simp
  have 5: "fill_column fiber fiber_update (map ?g4 df) =
     map (\<lambda>r. r\<lparr>calories := spec_fill calories df r, protein := spec_fill protein df r,
               carbs := spec_fill carbs df r, fat := spec_fill fat df r,
               fiber := spec_fill fiber df r\<rparr>) df"
    unfolding fill_fiber
    using fill_after [where col = fiber and g = ?g4 and U = "\<lambda>v r. r\<lparr>fiber := v\<rparr>" and df = df]
    by simp
  show ?thesis
    unfolding handle_missing_values_def 1 2 3 4 5 ..
qed


lemma dropna_all_missing: "\<forall>c\<in>set cs. c = None \<Longrightarrow> dropna cs = []"
  by (induction cs) auto

lemma spec_fill_all_missing:
  assumes "\<forall>r\<in>set df. col r = None" "r \<in> set df"
  shows "spec_fill col df r = None"
proof -
  have g: "group_mean col df s = None" for s
    using assms(1) by (simp add: group_mean_def nanmean_def dropna_all_missing)
  have "dropna (map (\<lambda>s. fillna (col s) (group_mean col df s)) df) = []"
    using assms(1) by (intro dropna_all_missing) (simp add: g fillna_def)
  then show ?thesis
    using assms by (simp add: spec_fill_def g nanmean_def)
qed

text \<open>
  C6, amended: in \<open>handle_missing_values\<close> each missing macro value is first replaced
  by the mean of the present values of the entries with the same \<open>food_item\<close>; a value
  still missing is replaced by the mean of the column as it stands after that first
  step; and when an entire macro column is missing, every value in it stays missing
  (no 0 is written). Present values, dates, meal types and food items are unchanged.
\<close>

theorem missing_values_imputed:
  "(col \<in> {calories, protein, carbs, fat, fiber} \<longrightarrow>
      map col (handle_missing_values df) = map (spec_fill col df) df
      \<and> ((\<forall>r\<in>set df. col r = None) \<longrightarrow> (\<forall>r\<in>set (handle_missing_values df). col r = None)))
   \<and> map date (handle_missing_values df) = map date df
   \<and> map meal_type (handle_missing_values df) = map meal_type df
   \<and> map food_item (handle_missing_values df) = map food_item df"
proof -
  have a: "map col (handle_missing_values df) = map (spec_fill col df) df"
    if "col \<in> {calories, protein, carbs, fat, fiber}"
    using that by (auto simp: handle_missing_values_closed o_def)
  have b: "\<forall>r\<in>set (handle_missing_values df). col r = None"
    if c: "col \<in> {calories, protein, carbs, fat, fiber}" and m: "\<forall>r\<in>set df. col r = None"
  proof -
    have "set (map col (handle_missing_values df)) \<subseteq> {None}"
      unfolding a [OF c] using m by (auto simp: spec_fill_all_missing)
    then show ?thesis by auto
  qed
  show ?thesis
    using a b by (simp add: handle_missing_values_closed o_def)
qed

text \<open>
  C6, as stated: an entirely missing macro column would become 0 in every row. The
  column mean of such a column is \<open>NaN\<close>, and \<open>fillna(NaN)\<close> fills nothing: the calories
  of \<open>log_without_calories\<close> stay missing.
\<close>

theorem all_missing_column_counterexample:
  "map calories log_without_calories = [None, None]
   \<and> map calories (handle_missing_values log_without_calories) = [None, None]
   \<and> map calories (handle_missing_values log_without_calories) \<noteq> [Some 0, Some 0]"
  by code_simp

theorem missing_values_imputed_witness:
  "calories \<in> {calories, protein, carbs, fat, fiber}
   \<and> map calories sample_log = [Some 400, Some 800, None, Some 600]
   \<and> map calories (handle_missing_values sample_log) = [Some 400, Some 800, Some 400, Some 600]
   \<and> map fiber (handle_missing_values sample_log) = [Some 8, Some 2, Some 8, Some 6]
   \<and> list_all (\<lambda>r. calories r = None) log_without_calories
   \<and> list_all (\<lambda>r. calories r = None) (handle_missing_values log_without_calories)"
proof -
  have 1: "map (spec_fill calories sample_log) sample_log = [Some 400, Some 800, Some 400, Some 600]"
    by code_simp
  have 2: "map (spec_fill fiber sample_log) sample_log = [Some 8, Some 2, Some 8, Some 6]"
    by code_simp
  have 3: "map calories sample_log = [Some 400, Some 800, None, Some 600]"
    by code_simp
  have 4: "\<forall>r\<in>set log_without_calories. calories r = None"
    by (simp add: log_without_calories_def row_def)
  from missing_values_imputed [of calories sample_log]
       missing_values_imputed [of fiber sample_log]
       missing_values_imputed [of calories log_without_calories] 1 2 3 4
  show ?thesis by (simp add: list_all_iff)
qed

section \<open>Theorems: activity tracker\<close>

lemma merge_one:
  "filter (\<lambda>(r, c). c = Some cat)
     (case filter (\<lambda>e. ref_exercise_type e = exercise_type r) ed of
        [] \<Rightarrow> [(r, None)]
      | es \<Rightarrow> map (\<lambda>e. (r, Some (category e))) es) = []
   \<longleftrightarrow> \<not> in_category ed cat r"
proof -
  have c: "(case xs of [] \<Rightarrow> [(r, None)] | es \<Rightarrow> map f es)
         = (if xs = [] then [(r, None)] else map f xs)" for xs :: "exercise_ref list" and f
    by (cases xs) auto
  show ?thesis
    unfolding c by (auto simp: in_category_def filter_empty_conv)
qed

lemma merge_none:
  "filter (\<lambda>(r, c). c = Some cat) (merge_left rs ed) = []
   \<longleftrightarrow> filter (in_category ed cat) rs = []"
proof (induction rs)
  case Nil
  show ?case by (simp add: merge_left_def)
next
  case (Cons r rs)
  have "merge_left (r # rs) ed =
      (case filter (\<lambda>e. ref_exercise_type e = exercise_type r) ed of
        [] \<Rightarrow> [(r, None)]
      | es \<Rightarrow> map (\<lambda>e. (r, Some (category e))) es) @ merge_left rs ed"
    by (simp add: merge_left_def)
  then show ?case using Cons merge_one [of cat r ed] by simp
qed

lemma count_lt_1: "length xs < 1 \<longleftrightarrow> xs = []" by auto

lemma flexibility_gap:
  "map_of (identify_fitness_gaps ed df) ''flexibility'' =
     (if length (filter (in_category ed ''Flexibility'') (rows df)) < 1
      then Some \<lparr>current = of_nat (length (filter (in_category ed ''Flexibility'') (rows df))),
                 recommended = 2,
                 deficit = 2 - of_nat (length (filter (in_category ed ''Flexibility'') (rows df)))\<rparr>
      else None)"
  unfolding count_lt_1
  by (simp add: identify_fitness_gaps_def Let_def update_conv' merge_none [symmetric])

lemma variety_gap:
  "map_of (identify_fitness_gaps ed df) ''exercise_variety'' =
     (if length (remdups (map exercise_type (rows df))) < 3
      then Some \<lparr>current = of_nat (length (remdups (map exercise_type (rows df)))),
                 recommended = 3,
                 deficit = 3 - of_nat (length (remdups (map exercise_type (rows df))))\<rparr>
      else None)"
  by (simp add: identify_fitness_gaps_def Let_def update_conv')

lemma load_met_values_None:
  "load_met_values ed t = None \<longleftrightarrow> t \<notin> ref_exercise_type ` set ed"
  by (auto simp: load_met_values_def map_of_eq_None_iff image_iff)

lemma calc_calories_spec:
  "calc_calories (load_met_values ed) w r = spec_met ed (exercise_type r) * w * (duration r / 60)"
  by (simp add: calc_calories_def spec_met_def get_or_def Let_def)

text \<open>
  C3, amended: \<open>calculate_calories_burned\<close> assigns the column only when the frame has
  no \<open>calories_burned\<close> column or every cell of it is missing; then every entry gets
  MET(exercise_type) * weight_kg * (duration_min / 60), where MET is the value of the
  MET table and 5.0 for a type the table does not list. When at least one cell of the
  column is populated the frame is left as it is, missing cells included.
\<close>

theorem calories_burned_column_rule:
  "((calories_burned df = None \<or> (\<exists>col. calories_burned df = Some col \<and> (\<forall>c \<in> set col. c = None)))
      \<longrightarrow> calculate_calories_burned ed df w =
            df\<lparr>calories_burned :=
                 Some (map (\<lambda>r. Some (spec_met ed (exercise_type r) * w * (duration r / 60)))
                        (rows df))\<rparr>)
   \<and> ((\<exists>col c. calories_burned df = Some col \<and> c \<in> set col \<and> c \<noteq> None)
      \<longrightarrow> calculate_calories_burned ed df w = df)
   \<and> (t \<notin> ref_exercise_type ` set ed \<longrightarrow> spec_met ed t = 5)
   \<and> (\<forall>m. load_met_values ed t = Some m \<longrightarrow>
          spec_met ed t = m \<and> (\<exists>e \<in> set ed. ref_exercise_type e = t \<and> met_value e = m))"
proof -
  have a: "spec_met ed t = 5" if "t \<notin> ref_exercise_type ` set ed"
    using that load_met_values_None [of ed t] by (simp add: spec_met_def)
  have b: "spec_met ed t = m \<and> (\<exists>e \<in> set ed. ref_exercise_type e = t \<and> met_value e = m)"
    if "load_met_values ed t = Some m" for m
  proof -
    from that have "(t, m) \<in> set (rev (map (\<lambda>e. (ref_exercise_type e, met_value e)) ed))"
      unfolding load_met_values_def by (rule map_of_SomeD)
    with that show ?thesis by (auto simp: spec_met_def)
  qed
  show ?thesis
    using a b
    by (auto simp: calculate_calories_burned_def Let_def calc_calories_spec list_all_iff
        split: option.splits)
qed

text \<open>
  C3, as stated: every entry whose value is not populated would get the formula's
  value. In \<open>sample_exercise_log\<close> the first entry is populated and the other two are
  not; the guard sees a column that is not entirely missing and computes nothing, so
  the two entries stay missing instead of 175 and 262.5.
\<close>

theorem calories_per_entry_counterexample:
  "calories_burned sample_exercise_log = Some [Some 300, None, None]
   \<and> calories_burned (calculate_calories_burned sample_exercise_data sample_exercise_log 70)
       = Some [Some 300, None, None]
   \<and> map (\<lambda>r. spec_met sample_exercise_data (exercise_type r) * 70 * (duration r / 60))
       (rows sample_exercise_log) = [280, 175, 525 / 2]"
  by code_simp

theorem calories_burned_column_rule_witness:
  "calories_burned (calculate_calories_burned sample_exercise_data
       (sample_exercise_log\<lparr>calories_burned := Some [None, None, None]\<rparr>) 70)
     = Some [Some 280, Some 175, Some (525 / 2)]
   \<and> calculate_calories_burned sample_exercise_data sample_exercise_log 70 = sample_exercise_log
   \<and> ''Juggling'' \<notin> ref_exercise_type ` set sample_exercise_data
   \<and> spec_met sample_exercise_data ''Juggling'' = 5
   \<and> load_met_values sample_exercise_data ''Yoga'' = Some (5 / 2)
   \<and> spec_met sample_exercise_data ''Yoga'' = 5 / 2"
proof -
  let ?df = "sample_exercise_log\<lparr>calories_burned := Some [None, None, None]\<rparr>"
  have 1: "calories_burned ?df = Some [None, None, None]" by simp
  have 2: "\<forall>c \<in> set [None, None, None :: cell]. c = None" by simp
  have 3: "map (\<lambda>r. Some (spec_met sample_exercise_data (exercise_type r) * 70 * (duration r / 60)))
             (rows ?df) = [Some 280, Some 175, Some (525 / 2)]"
    by code_simp
  have 4: "calories_burned sample_exercise_log = Some [Some 300, None, None]"
    by (simp add: sample_exercise_log_def)
  have 5: "''Juggling'' \<notin> ref_exercise_type ` set sample_exercise_data" by code_simp
  have 6: "load_met_values sample_exercise_data ''Yoga'' = Some (5 / 2)" by code_simp
  note r1 = calories_burned_column_rule [of ?df sample_exercise_data 70 "''Juggling''"]
  note r2 = calories_burned_column_rule [of sample_exercise_log sample_exercise_data 70 "''Yoga''"]
  have A: "calculate_calories_burned sample_exercise_data ?df 70 =
      ?df\<lparr>calories_burned :=
           Some (map (\<lambda>r. Some (spec_met sample_exercise_data (exercise_type r) * 70 * (duration r / 60)))
                  (rows ?df))\<rparr>"
    using r1 1 2 by blast
  have "\<exists>col c. calories_burned sample_exercise_log = Some col \<and> c \<in> set col \<and> c \<noteq> None"
    unfolding 4 by auto
  then have B: "calculate_calories_burned sample_exercise_data sample_exercise_log 70
      = sample_exercise_log"
    using r2 by blast
  have C: "spec_met sample_exercise_data ''Juggling'' = 5" using r1 5 by blast
  have D: "spec_met sample_exercise_data ''Yoga'' = 5 / 2" using r2 6 by blast
  show ?thesis
    unfolding A B C D 3 using 5 6 by simp
qed

lemma rows_calculate: "rows (calculate_calories_burned ed df w) = rows df"
  by (simp add: calculate_calories_burned_def Let_def split: option.splits)

lemma identify_rows:
  "rows df = rows df' \<Longrightarrow> identify_fitness_gaps ed df = identify_fitness_gaps ed df'"
  by (simp add: identify_fitness_gaps_def)

text \<open>
  C7: \<open>identify_fitness_gaps\<close> emits a flexibility gap exactly when the number of
  entries whose category is Flexibility is strictly below 1; the entry has
  recommended = 2 and deficit = 2 - count, the target being 2 although the trigger
  is 1. For a non-empty log \<open>analyze_activity_logs\<close> reports exactly these gaps.
\<close>

theorem flexibility_gap_rule:
  "map_of (identify_fitness_gaps ed df) ''flexibility'' =
     (if length (filter (in_category ed ''Flexibility'') (rows df)) < 1
      then Some \<lparr>current = of_nat (length (filter (in_category ed ''Flexibility'') (rows df))),
                 recommended = 2,
                 deficit = 2 - of_nat (length (filter (in_category ed ''Flexibility'') (rows df)))\<rparr>
      else None)
   \<and> (rows df \<noteq> [] \<longrightarrow>
        fitness_gaps (fst (analyze_activity_logs P R ed df w)) = identify_fitness_gaps ed df)"
  using identify_rows [OF rows_calculate [of ed df w], of ed]
  by (simp add: flexibility_gap analyze_activity_logs_def Let_def)

theorem flexibility_gap_rule_witness:
  "rows sample_exercise_log \<noteq> []
   \<and> length (filter (in_category sample_exercise_data ''Flexibility'') (rows sample_exercise_log)) = 1
   \<and> map_of (fitness_gaps (fst (analyze_activity_logs
        (\<lambda>df. activity_patterns activity_default_analysis) (\<lambda>p g. [])
        sample_exercise_data sample_exercise_log 70))) ''flexibility'' = None
   \<and> map_of (identify_fitness_gaps sample_exercise_data
        \<lparr>rows = [ex ''2024-01-01'' ''Running'' 30 ''High''], calories_burned = None\<rparr>) ''flexibility''
       = Some \<lparr>current = 0, recommended = 2, deficit = 2\<rparr>"
proof -
  let ?d = "\<lparr>rows = [ex ''2024-01-01'' ''Running'' 30 ''High''], calories_burned = None\<rparr>"
  have 1: "rows sample_exercise_log \<noteq> []" by (simp add: sample_exercise_log_def)
  have 2: "length (filter (in_category sample_exercise_data ''Flexibility'') (rows sample_exercise_log)) = 1"
    by code_simp
  have 3: "length (filter (in_category sample_exercise_data ''Flexibility'') (rows ?d)) = 0"
    by code_simp
  note r1 = flexibility_gap_rule [of sample_exercise_data sample_exercise_log
        "\<lambda>df. activity_patterns activity_default_analysis" "\<lambda>p g. []" 70]
  note r2 = flexibility_gap_rule [of sample_exercise_data ?d
        "\<lambda>df. activity_patterns activity_default_analysis" "\<lambda>p g. []" 70]
  have A: "map_of (fitness_gaps (fst (analyze_activity_logs
        (\<lambda>df. activity_patterns activity_default_analysis) (\<lambda>p g. [])
        sample_exercise_data sample_exercise_log 70))) ''flexibility'' = None"
    using r1 1 2 by simp
  have B: "map_of (identify_fitness_gaps sample_exercise_data ?d) ''flexibility''
       = Some \<lparr>current = 0, recommended = 2, deficit = 2\<rparr>"
    using r2 unfolding 3 by simp
  show ?thesis using 1 2 A B by simp
qed

text \<open>
  C10: for an empty exercise log the analyzer returns the canned default, whose gaps are
  exactly cardio_duration, strength_training and flexibility, with no exercise_variety
  gap; yet \<open>identify_fitness_gaps\<close> on any log with fewer than 3 distinct exercise
  types, the empty one included, emits exercise_variety with deficit = 3 - count.
\<close>

theorem empty_log_default_disagrees:
  "fst (analyze_activity_logs P R ed \<lparr>rows = [], calories_burned = c\<rparr> w) = activity_default_analysis
   \<and> map fst (fitness_gaps activity_default_analysis)
       = [''cardio_duration'', ''strength_training'', ''flexibility'']
   \<and> map_of (fitness_gaps activity_default_analysis) ''exercise_variety'' = None
   \<and> (length (remdups (map exercise_type (rows df))) < 3 \<longrightarrow>
        map_of (identify_fitness_gaps ed df) ''exercise_variety'' =
          Some \<lparr>current = of_nat (length (remdups (map exercise_type (rows df)))),
                recommended = 3,
                deficit = 3 - of_nat (length (remdups (map exercise_type (rows df))))\<rparr>)
   \<and> map_of (identify_fitness_gaps ed \<lparr>rows = [], calories_burned = c\<rparr>) ''exercise_variety''
       = Some \<lparr>current = 0, recommended = 3, deficit = 3\<rparr>"
  by (simp add: variety_gap analyze_activity_logs_def activity_default_analysis_def)

theorem empty_log_default_disagrees_witness:
  "length (remdups (map exercise_type
      (rows \<lparr>rows = [ex ''2024-01-01'' ''Running'' 30 ''High'',
                      ex ''2024-01-02'' ''Running'' 20 ''High'',
                      ex ''2024-01-03'' ''Yoga'' 20 ''Low''], calories_burned = None\<rparr>))) = 2
   \<and> map_of (identify_fitness_gaps sample_exercise_data
        \<lparr>rows = [ex ''2024-01-01'' ''Running'' 30 ''High'',
                 ex ''2024-01-02'' ''Running'' 20 ''High'',
                 ex ''2024-01-03'' ''Yoga'' 20 ''Low''], calories_burned = None\<rparr>) ''exercise_variety''
       = Some \<lparr>current = 2, recommended = 3, deficit = 1\<rparr>"
proof -
  let ?d = "\<lparr>rows = [ex ''2024-01-01'' ''Running'' 30 ''High'',
                 ex ''2024-01-02'' ''Running'' 20 ''High'',
                 ex ''2024-01-03'' ''Yoga'' 20 ''Low''], calories_burned = None\<rparr>"
  have 1: "length (remdups (map exercise_type (rows ?d))) = 2" by code_simp
  from empty_log_default_disagrees
     [of "\<lambda>df. activity_patterns activity_default_analysis" "\<lambda>p g. []"
         sample_exercise_data None 70 ?d]
  show ?thesis unfolding 1 by simp
qed

lemma spec_fill_present: "col r \<noteq> None \<Longrightarrow> spec_fill col df r = col r"
  by (auto simp: spec_fill_def split: option.splits)

lemma handle_missing_values_present:
  assumes "\<forall>r\<in>set df. all_present r"
  shows "handle_missing_values df = df"
proof -
  have "r\<lparr>calories := spec_fill calories df r, protein := spec_fill protein df r,
          carbs := spec_fill carbs df r, fat := spec_fill fat df r,
          fiber := spec_fill fiber df r\<rparr> = r" if "r \<in> set df" for r
    using assms that by (simp add: all_present_def spec_fill_present)
  then show ?thesis
    unfolding handle_missing_values_closed by (simp add: map_idI)
qed

lemma handle_missing_values_length: "length (handle_missing_values df) = length df"
  by (simp add: handle_missing_values_closed)

text \<open>
  C9, amended: after \<open>analyze_food_logs\<close> the caller's food log is the log as
  \<open>handle_missing_values\<close> leaves it: unchanged when it is empty or has no missing
  macro value, with its missing macro values filled in otherwise. After
  \<open>analyze_activity_logs\<close> the caller's exercise log is the log as
  \<open>calculate_calories_burned\<close> leaves it: unchanged when it is empty or its
  \<open>calories_burned\<close> column has a populated value, with that column written otherwise.
  No row is added or removed, and dates, meal types, food items and exercise rows are
  never changed.
\<close>

theorem analyzers_frame_effect:
  "snd (analyze_food_logs P R df) = (if df = [] then df else handle_missing_values df)
   \<and> ((\<forall>r\<in>set df. all_present r) \<longrightarrow> snd (analyze_food_logs P R df) = df)
   \<and> length (snd (analyze_food_logs P R df)) = length df
   \<and> map date (snd (analyze_food_logs P R df)) = map date df
   \<and> map meal_type (snd (analyze_food_logs P R df)) = map meal_type df
   \<and> map food_item (snd (analyze_food_logs P R df)) = map food_item df
   \<and> snd (analyze_activity_logs P' R' ed edf w)
       = (if rows edf = [] then edf else calculate_calories_burned ed edf w)
   \<and> rows (snd (analyze_activity_logs P' R' ed edf w)) = rows edf
   \<and> ((\<exists>col c. calories_burned edf = Some col \<and> c \<in> set col \<and> c \<noteq> None)
        \<longrightarrow> snd (analyze_activity_logs P' R' ed edf w) = edf)"
proof -
  have f: "snd (analyze_food_logs P R df) = (if df = [] then df else handle_missing_values df)"
    by (simp add: analyze_food_logs_def Let_def)
  have a: "snd (analyze_activity_logs P' R' ed edf w)
       = (if rows edf = [] then edf else calculate_calories_burned ed edf w)"
    by (simp add: analyze_activity_logs_def Let_def)
  have c: "calculate_calories_burned ed edf w = edf"
    if "\<exists>col c. calories_burned edf = Some col \<and> c \<in> set col \<and> c \<noteq> None"
    using that by (auto simp: calculate_calories_burned_def Let_def list_all_iff)
  have m: "map date (handle_missing_values df) = map date df"
    "map meal_type (handle_missing_values df) = map meal_type df"
    "map food_item (handle_missing_values df) = map food_item df"
    by (simp_all add: handle_missing_values_closed o_def)
  show ?thesis
    unfolding f a
    using c m by (simp add: handle_missing_values_present handle_missing_values_length rows_calculate)
qed

text \<open>
  C9, as stated: the caller's logs would be unchanged after the analyzers return. The
  missing calories and fiber values of \<open>sample_log\<close> are overwritten in the caller's
  frame, and an exercise log without a \<open>calories_burned\<close> column has one afterwards.
\<close>

theorem analyzers_mutate_counterexample:
  "map calories sample_log = [Some 400, Some 800, None, Some 600]
   \<and> map calories (snd (analyze_food_logs
        (\<lambda>df. eating_patterns get_default_analysis) (\<lambda>g p. []) sample_log))
       = [Some 400, Some 800, Some 400, Some 600]
   \<and> map fiber sample_log = [Some 8, Some 2, Some 8, None]
   \<and> map fiber (snd (analyze_food_logs
        (\<lambda>df. eating_patterns get_default_analysis) (\<lambda>g p. []) sample_log))
       = [Some 8, Some 2, Some 8, Some 6]
   \<and> calories_burned (snd (analyze_activity_logs
        (\<lambda>df. activity_patterns activity_default_analysis) (\<lambda>p g. [])
        sample_exercise_data \<lparr>rows = rows sample_exercise_log, calories_burned = None\<rparr> 70))
       = Some [Some 280, Some 175, Some (525 / 2)]"
  by code_simp

theorem analyzers_frame_effect_witness:
  "list_all all_present (take 2 sample_log)
   \<and> snd (analyze_food_logs (\<lambda>df. eating_patterns get_default_analysis) (\<lambda>g p. [])
        (take 2 sample_log)) = take 2 sample_log
   \<and> calories_burned sample_exercise_log = Some [Some 300, None, None]
   \<and> snd (analyze_activity_logs (\<lambda>df. activity_patterns activity_default_analysis) (\<lambda>p g. [])
        sample_exercise_data sample_exercise_log 70) = sample_exercise_log"
proof -
  have 1: "\<forall>r\<in>set (take 2 sample_log). all_present r"
    by (simp add: sample_log_def row_def all_present_def)
  have 2: "calories_burned sample_exercise_log = Some [Some 300, None, None]"
    by (simp add: sample_exercise_log_def)
  have 3: "\<exists>col c. calories_burned sample_exercise_log = Some col \<and> c \<in> set col \<and> c \<noteq> None"
    unfolding 2 by auto
  note r = analyzers_frame_effect [of "\<lambda>df. eating_patterns get_default_analysis" "\<lambda>g p. []"
      "take 2 sample_log" "\<lambda>df. activity_patterns activity_default_analysis" "\<lambda>p g. []"
      sample_exercise_data sample_exercise_log 70]
  have A: "snd (analyze_food_logs (\<lambda>df. eating_patterns get_default_analysis) (\<lambda>g p. [])
        (take 2 sample_log)) = take 2 sample_log"
    using r 1 by blast
  have B: "snd (analyze_activity_logs (\<lambda>df. activity_patterns activity_default_analysis) (\<lambda>p g. [])
        sample_exercise_data sample_exercise_log 70) = sample_exercise_log"
    using r 3 by blast
  show ?thesis using 1 2 A B by (simp add: list_all_iff)
qed

section \<open>Theorems: progress predictor\<close>



























end
